theory Spec2Isabelle
  imports Complex_Main
begin

section \<open>NumPy arrays\<close>

text \<open>
  The wrapper \<^verbatim>\<open>mandelagol.py\<close> handles NumPy arrays only through their shape:
  \<^verbatim>\<open>asarray(u).T\<close>, \<^verbatim>\<open>ndim\<close>, \<^verbatim>\<open>u[:, newaxis]\<close>, \<^verbatim>\<open>ravel()\<close>,
  \<^verbatim>\<open>reshape((npt, nss))\<close> and \<^verbatim>\<open>mean(1)\<close>. An array is a shape together with its
  elements in row-major (C) index order, the order in which \<^verbatim>\<open>ravel\<close> and
  \<^verbatim>\<open>reshape\<close> read an array whatever its memory layout is. Elements are reals:
  rounding of the floating-point operations is not modelled.
\<close>

datatype ndarray = NDArray (shape: "nat list") (data: "real list")

definition ndim :: "ndarray \<Rightarrow> nat" where
  "ndim a = length (shape a)"

text \<open>\<^verbatim>\<open>a.size\<close>, the number of elements. A value of the datatype is an array when
  its shape says as much.\<close>

definition asize :: "ndarray \<Rightarrow> nat" where
  "asize a = length (data a)"

definition wf_array :: "ndarray \<Rightarrow> bool" where
  "wf_array a = (prod_list (shape a) = asize a)"

text \<open>All index tuples of a shape, in row-major order, and the row-major offset of one.\<close>

fun multi_indices :: "nat list \<Rightarrow> nat list list" where
  "multi_indices [] = [[]]"
| "multi_indices (n # ns) = concat (map (\<lambda>i. map ((#) i) (multi_indices ns)) [0..<n])"

definition flat_index :: "nat list \<Rightarrow> nat list \<Rightarrow> nat" where
  "flat_index s idx = foldl (\<lambda>acc (n, i). acc * n + i) 0 (zip s idx)"

text \<open>\<^verbatim>\<open>a.T\<close>: the axes reversed; the identity on arrays of dimension 0 and 1.\<close>

definition transposeT :: "ndarray \<Rightarrow> ndarray" where
  "transposeT a =
     NDArray (rev (shape a))
       (map (\<lambda>j. data a ! flat_index (shape a) (rev j)) (multi_indices (rev (shape a))))"

text \<open>\<^verbatim>\<open>a[:, np.newaxis]\<close>: a new axis of length 1 in second position. The wrapper
  applies it to one-dimensional arrays only.\<close>

definition newaxis1 :: "ndarray \<Rightarrow> ndarray" where
  "newaxis1 a = NDArray (take 1 (shape a) @ 1 # drop 1 (shape a)) (data a)"

text \<open>\<^verbatim>\<open>a.ravel()\<close>: the same elements as a one-dimensional array.\<close>

definition ravel :: "ndarray \<Rightarrow> ndarray" where
  "ravel a = NDArray [asize a] (data a)"

datatype error = NotImplementedError | AttributeError | ValueError | AxisError

text \<open>\<^verbatim>\<open>a.reshape(s)\<close> for a shape without negative entries: NumPy raises
  \<^verbatim>\<open>ValueError\<close> unless the new shape has the size of the array.\<close>

definition reshape :: "ndarray \<Rightarrow> nat list \<Rightarrow> error + ndarray" where
  "reshape a s = (if prod_list s = asize a then Inr (NDArray s (data a)) else Inl ValueError)"

text \<open>\<^verbatim>\<open>a.mean(1)\<close>: the arithmetic mean along the second axis; an array with fewer
  than two axes has no axis 1. (For an axis of length 0 NumPy returns NaN with a warning,
  which the reals cannot express; the wrapper divides by the supersampling factor.)\<close>

definition mean1 :: "ndarray \<Rightarrow> error + ndarray" where
  "mean1 a =
     (case shape a of
        r # c # rest \<Rightarrow>
          (let inner = prod_list rest in
           Inr (NDArray (r # rest)
                  (concat (map (\<lambda>i. map (\<lambda>q. sum_list (map (\<lambda>j. data a ! ((i * c + j) * inner + q)) [0..<c])
                                               / real c) [0..<inner]) [0..<r]))))
      | _ \<Rightarrow> Inl AxisError)"

section \<open>The compiled modules and the base class\<close>

text \<open>
  The wrapper imports the Fortran extension \<^verbatim>\<open>mandelagol_f\<close> (as \<^verbatim>\<open>ma\<close>) and
  derives from \<^verbatim>\<open>tm.TransitModel\<close>. Neither is part of the sources at hand, so
  both are parameters of the model: a record of the four routines of \<^verbatim>\<open>ma\<close> that
  the wrapper calls, with the arguments in the order of the call sites, and a record of
  the two methods of the base class that it uses. The routines are pure functions of
  their arguments and return for every input.
\<close>

record ma_module =
  calculate_interpolation_tables ::
    "real \<Rightarrow> real \<Rightarrow> int \<Rightarrow> int \<Rightarrow> int \<Rightarrow> ndarray \<times> ndarray \<times> ndarray \<times> ndarray \<times> ndarray"
  eval_uniform :: "ndarray \<Rightarrow> real \<Rightarrow> real \<Rightarrow> int \<Rightarrow> ndarray"
  eval_quad_multiband :: "ndarray \<Rightarrow> real \<Rightarrow> ndarray \<Rightarrow> real \<Rightarrow> int \<Rightarrow> ndarray"
  eval_quad_bilerp ::
    "ndarray \<Rightarrow> real \<Rightarrow> ndarray \<Rightarrow> real \<Rightarrow> int \<Rightarrow>
     ndarray \<Rightarrow> ndarray \<Rightarrow> ndarray \<Rightarrow> ndarray \<Rightarrow> ndarray \<Rightarrow> ndarray"

text \<open>The calls into \<^verbatim>\<open>ma\<close> that an operation makes, in order.\<close>

datatype ma_call =
  Call_calculate_interpolation_tables
| Call_eval_uniform
| Call_eval_quad_multiband
| Call_eval_quad_bilerp

text \<open>The attributes of \<^verbatim>\<open>TransitModel\<close> that the wrapper reads: \<^verbatim>\<open>self.nthr\<close>,
  \<^verbatim>\<open>self.ss\<close>, \<^verbatim>\<open>self.nss\<close> and \<^verbatim>\<open>self.npt\<close>, and the exposure time that
  the base class is given. The two counts are natural numbers.\<close>

record tm_base =
  nthr :: int
  ss :: bool
  nss :: nat
  npt :: nat
  exptime :: real

text \<open>\<^verbatim>\<open>TransitModel.__init__(nldc, nthr, lerp, supersampling, exptime)\<close> and
  \<^verbatim>\<open>TransitModel._calculate_z(t, t0, p, a, i, e, w, lerp_z)\<close>. The methods of the
  base class act on the attributes of the base class.\<close>

record tm_module =
  tm_init :: "int \<Rightarrow> int \<Rightarrow> bool \<Rightarrow> int \<Rightarrow> real \<Rightarrow> tm_base"
  calculate_z ::
    "tm_base \<Rightarrow> ndarray \<Rightarrow> real \<Rightarrow> real \<Rightarrow> real \<Rightarrow> real \<Rightarrow> real \<Rightarrow> real \<Rightarrow> bool \<Rightarrow> ndarray \<times> tm_base"

section \<open>The class MandelAgol\<close>

text \<open>The attributes that \<^verbatim>\<open>__init__\<close> sets when \<^verbatim>\<open>lerp\<close> is true.\<close>

record tables =
  ed :: ndarray
  le :: ndarray
  ld :: ndarray
  kt :: ndarray
  zt :: ndarray
  klims :: "real \<times> real"
  nk :: int
  nz :: int

text \<open>The three evaluator methods, as the values of \<^verbatim>\<open>self._eval_nolerp\<close>,
  \<^verbatim>\<open>self._eval_lerp\<close> and \<^verbatim>\<open>self._eval\<close>.\<close>

datatype evaluator = Eval_nolerp_uniform | Eval_nolerp_quadratic | Eval_lerp_quadratic

text \<open>An object: the base-class attributes, the table attributes (absent unless
  \<^verbatim>\<open>lerp\<close>), and the three evaluator attributes, of which \<^verbatim>\<open>_eval_lerp\<close> is set
  on one branch of \<^verbatim>\<open>__init__\<close> only.\<close>

record model =
  base :: tm_base
  tabs :: "tables option"
  p_eval_nolerp :: evaluator
  p_eval_lerp :: "evaluator option"
  p_eval :: evaluator

text \<open>\<^verbatim>\<open>MandelAgol.__init__\<close>. Reading the unset attribute \<^verbatim>\<open>self._eval_lerp\<close>
  in the last statement raises \<^verbatim>\<open>AttributeError\<close>; the conditional expression reads
  only the attribute it selects.\<close>

definition init ::
  "ma_module \<Rightarrow> tm_module \<Rightarrow> int \<Rightarrow> int \<Rightarrow> bool \<Rightarrow> int \<Rightarrow> real \<Rightarrow> real \<times> real \<Rightarrow> int \<Rightarrow> int
   \<Rightarrow> (error + model) \<times> ma_call list" where
  "init ma tm nldc nthr' lerp supersampling exptime' klims' nk' nz' =
     (if \<not> (nldc = 0 \<or> nldc = 2) then (Inl NotImplementedError, [])
      else
        let b = tm_init tm nldc nthr' lerp supersampling exptime';
            tb = (if lerp
                  then (case calculate_interpolation_tables ma (fst klims') (snd klims') nk' nz' 4 of
                          (ed', le', ld', kt', zt') \<Rightarrow>
                            Some \<lparr>ed = ed', le = le', ld = ld', kt = kt', zt = zt',
                                  klims = klims', nk = nk', nz = nz'\<rparr>)
                  else None);
            calls = (if lerp then [Call_calculate_interpolation_tables] else []);
            nolerp = (if nldc = 0 then Eval_nolerp_uniform else Eval_nolerp_quadratic);
            lerp_attr = (if nldc = 0 then None else Some Eval_lerp_quadratic)
        in if lerp
           then (case lerp_attr of
                   None \<Rightarrow> (Inl AttributeError, calls)
                 | Some ev \<Rightarrow>
                     (Inr \<lparr>base = b, tabs = tb, p_eval_nolerp = nolerp,
                           p_eval_lerp = lerp_attr, p_eval = ev\<rparr>, calls))
           else (Inr \<lparr>base = b, tabs = tb, p_eval_nolerp = nolerp,
                      p_eval_lerp = lerp_attr, p_eval = nolerp\<rparr>, calls))"

text \<open>The first three lines of both quadratic evaluators:
  \<^verbatim>\<open>u = np.asarray(u, order='F').T\<close>, then a second axis for a one-dimensional
  \<^verbatim>\<open>u\<close>.\<close>

definition prepare_u :: "ndarray \<Rightarrow> ndarray" where
  "prepare_u u = (let u' = transposeT u in if ndim u' = 1 then newaxis1 u' else u')"

definition eval_nolerp_quadratic ::
  "ma_module \<Rightarrow> model \<Rightarrow> ndarray \<Rightarrow> real \<Rightarrow> ndarray \<Rightarrow> real \<Rightarrow> bool \<Rightarrow> (error + ndarray) \<times> ma_call list" where
  "eval_nolerp_quadratic ma m z k u c update =
     (Inr (eval_quad_multiband ma z k (prepare_u u) c (nthr (base m))), [Call_eval_quad_multiband])"

definition eval_nolerp_uniform ::
  "ma_module \<Rightarrow> model \<Rightarrow> ndarray \<Rightarrow> real \<Rightarrow> ndarray \<Rightarrow> real \<Rightarrow> bool \<Rightarrow> (error + ndarray) \<times> ma_call list" where
  "eval_nolerp_uniform ma m z k u c update =
     (Inr (eval_uniform ma z k c (nthr (base m))), [Call_eval_uniform])"

text \<open>The interpolating evaluator passes the stored grids in the order
  \<^verbatim>\<open>ed, ld, le, kt, zt\<close>. Without the table attributes the attribute lookup
  raises.\<close>

definition eval_lerp_quadratic ::
  "ma_module \<Rightarrow> model \<Rightarrow> ndarray \<Rightarrow> real \<Rightarrow> ndarray \<Rightarrow> real \<Rightarrow> bool \<Rightarrow> (error + ndarray) \<times> ma_call list" where
  "eval_lerp_quadratic ma m z k u c update =
     (case tabs m of
        None \<Rightarrow> (Inl AttributeError, [])
      | Some tb \<Rightarrow>
          (Inr (eval_quad_bilerp ma z k (prepare_u u) c (nthr (base m))
                  (ed tb) (ld tb) (le tb) (kt tb) (zt tb)),
           [Call_eval_quad_bilerp]))"

text \<open>The bound method stored in \<^verbatim>\<open>self._eval\<close>, applied.\<close>

fun apply_evaluator ::
  "evaluator \<Rightarrow> ma_module \<Rightarrow> model \<Rightarrow> ndarray \<Rightarrow> real \<Rightarrow> ndarray \<Rightarrow> real \<Rightarrow> bool
   \<Rightarrow> (error + ndarray) \<times> ma_call list" where
  "apply_evaluator Eval_nolerp_uniform = eval_nolerp_uniform"
| "apply_evaluator Eval_nolerp_quadratic = eval_nolerp_quadratic"
| "apply_evaluator Eval_lerp_quadratic = eval_lerp_quadratic"

text \<open>\<^verbatim>\<open>MandelAgol.__call__(z, k, u, c, b, update)\<close>. The result is the returned
  value or the exception, the object after the call, and the calls made into
  \<^verbatim>\<open>ma\<close>. The method assigns no attribute; \<^verbatim>\<open>b\<close> is not used.\<close>

definition call ::
  "ma_module \<Rightarrow> model \<Rightarrow> ndarray \<Rightarrow> real \<Rightarrow> ndarray \<Rightarrow> real \<Rightarrow> real \<Rightarrow> bool
   \<Rightarrow> (error + ndarray) \<times> model \<times> ma_call list" where
  "call ma m z k u c b update =
     (case apply_evaluator (p_eval m) ma m z k u c update of
        (Inl err, calls) \<Rightarrow> (Inl err, m, calls)
      | (Inr flux, calls) \<Rightarrow> (Inr (if ndim u > 1 then flux else ravel flux), m, calls))"

text \<open>\<^verbatim>\<open>MandelAgol.evaluate(t, k, u, t0, p, a, i, e, w, c, update, lerp_z)\<close>. The
  call \<^verbatim>\<open>self.__call__(z, k, u, c, update)\<close> is positional, so \<^verbatim>\<open>update\<close>
  arrives in the parameter \<^verbatim>\<open>b\<close> (a Python \<^verbatim>\<open>bool\<close> is the number 0 or 1) and
  the parameter \<^verbatim>\<open>update\<close> of \<^verbatim>\<open>__call__\<close> keeps its default \<^verbatim>\<open>True\<close>.\<close>

definition evaluate ::
  "ma_module \<Rightarrow> tm_module \<Rightarrow> model \<Rightarrow> ndarray \<Rightarrow> real \<Rightarrow> ndarray \<Rightarrow> real \<Rightarrow> real \<Rightarrow> real \<Rightarrow> real
   \<Rightarrow> real \<Rightarrow> real \<Rightarrow> real \<Rightarrow> bool \<Rightarrow> bool \<Rightarrow> (error + ndarray) \<times> model \<times> ma_call list" where
  "evaluate ma tm m t k u t0 p a i e w c update lerp_z =
     (case calculate_z tm (base m) t t0 p a i e w lerp_z of
        (z, b') \<Rightarrow>
          (case call ma (m\<lparr>base := b'\<rparr>) z k u c (of_bool update) True of
             (Inl err, m', calls) \<Rightarrow> (Inl err, m', calls)
           | (Inr flux, m', calls) \<Rightarrow>
               (if ss (base m')
                then (case reshape flux [npt (base m'), nss (base m')] of
                        Inl err \<Rightarrow> (Inl err, m', calls)
                      | Inr flux2 \<Rightarrow> (mean1 flux2, m', calls))
                else (Inr flux, m', calls))))"

section \<open>The compiled routines and the base class, from the specification\<close>

text \<open>Modelled from the spec: the overlap area behind \<^verbatim>\<open>ma.eval_uniform\<close>, which is not
  in the sources (section 4.2): the area common to two disks of radii 1 and \<open>k\<close> whose
  centres are \<open>z\<close> apart, in the regimes no overlap (\<open>z \<ge> 1 + k\<close>), smaller disk inside
  (\<open>z \<le> 1 - k\<close>), star inside the planet (\<open>z \<le> k - 1\<close>) and partial overlap, the last
  with the closed form in \<open>arccos\<close>.\<close>

definition overlap_area :: "real \<Rightarrow> real \<Rightarrow> real" where
  "overlap_area z k =
     (if z \<ge> 1 + k then 0
      else if z \<le> 1 - k then pi * k\<^sup>2
      else if z \<le> k - 1 then pi
      else k\<^sup>2 * arccos ((z\<^sup>2 + k\<^sup>2 - 1) / (2 * z * k)) + arccos ((z\<^sup>2 + 1 - k\<^sup>2) / (2 * z))
           - sqrt ((k + 1 - z) * (z + k - 1) * (z - k + 1) * (z + k + 1)) / 2)"

text \<open>Modelled from the spec: the uniform-law flux of \<^verbatim>\<open>ma.eval_uniform\<close> for one
  sample (section 4.2): one minus the overlap area over \<open>pi\<close>.\<close>

definition uniform_flux :: "real \<Rightarrow> real \<Rightarrow> real" where
  "uniform_flux z k = 1 - overlap_area z k / pi"

text \<open>Modelled from the spec: the contamination blending done inside the routines of
  \<^verbatim>\<open>ma\<close> (sections 1 and glossary): a single linear combination after the flux
  evaluation, \<open>c\<close> being the fraction of the observed light that comes from a third
  source.\<close>

definition blend :: "real \<Rightarrow> real \<Rightarrow> real" where
  "blend c f = c + (1 - c) * f"

text \<open>The spec names the three components stored per table node (the grids "ed", "le",
  "ld") and their recombination with the coefficients \<open>(u1, u2)\<close>, and gives a formula
  for neither. They are parameters of the quadratic-law routines below.\<close>

record quad_law =
  components :: "real \<Rightarrow> real \<Rightarrow> real \<times> real \<times> real"
  recombine :: "real \<Rightarrow> real \<Rightarrow> real \<Rightarrow> real \<Rightarrow> real \<Rightarrow> real"

text \<open>Modelled from the spec: the quadratic-law flux of \<^verbatim>\<open>ma.eval_quad_multiband\<close> for
  one sample and one band (sections 4.2 and 8): 1 where the disks do not overlap
  (\<open>z \<ge> 1 + k\<close>), and the analytic solution, the components at \<open>(k, z)\<close> recombined with
  the coefficients, in the other regimes.\<close>

definition quadratic_flux :: "quad_law \<Rightarrow> real \<Rightarrow> real \<Rightarrow> real \<Rightarrow> real \<Rightarrow> real" where
  "quadratic_flux ql z k u1 u2 =
     (if z \<ge> 1 + k then 1
      else (case components ql k z of (e, l, d) \<Rightarrow> recombine ql e l d u1 u2))"

text \<open>Modelled from the spec: \<^verbatim>\<open>ma.eval_uniform(z, k, c, nthr)\<close> (section 4.2): one
  flux value per element of \<open>z\<close>, in order; the thread count does not change the
  values.\<close>

definition spec_eval_uniform :: "ndarray \<Rightarrow> real \<Rightarrow> real \<Rightarrow> int \<Rightarrow> ndarray" where
  "spec_eval_uniform z k c n = NDArray [asize z] (map (\<lambda>x. blend c (uniform_flux x k)) (data z))"

text \<open>The number of bands of the coefficient array that the wrapper passes on, of shape
  \<open>(2, bands)\<close>.\<close>

definition bands :: "ndarray \<Rightarrow> nat" where
  "bands u = (case shape u of [r, n] \<Rightarrow> n | _ \<Rightarrow> 0)"

text \<open>Modelled from the spec: \<^verbatim>\<open>ma.eval_quad_multiband(z, k, u, c, nthr)\<close>
  (section 4.2): every band evaluated independently on the same \<open>z\<close> and \<open>k\<close>, the
  result a two-dimensional array with one row per element of \<open>z\<close> and one column per
  band.\<close>

definition spec_eval_quad_multiband ::
  "quad_law \<Rightarrow> ndarray \<Rightarrow> real \<Rightarrow> ndarray \<Rightarrow> real \<Rightarrow> int \<Rightarrow> ndarray" where
  "spec_eval_quad_multiband ql z k u c n =
     NDArray [asize z, bands u]
       (concat (map (\<lambda>x. map (\<lambda>b. blend c (quadratic_flux ql x k (data u ! b) (data u ! (bands u + b))))
                             [0..<bands u])
                    (data z)))"

text \<open>Modelled from the spec: the knots of the interpolation table (section 4.3),
  \<open>n\<close> values spanning an interval with uniform spacing.\<close>

definition knots :: "real \<Rightarrow> real \<Rightarrow> nat \<Rightarrow> real list" where
  "knots lo hi n = map (\<lambda>i. lo + (hi - lo) * real i / real (n - 1)) [0..<n]"

text \<open>Modelled from the spec: one grid of the table (section 4.3), a component at every
  knot pair, indexed by \<open>(ik, iz)\<close>.\<close>

definition grid :: "(real \<Rightarrow> real \<Rightarrow> real) \<Rightarrow> real list \<Rightarrow> real list \<Rightarrow> ndarray" where
  "grid f ks zs = NDArray [length ks, length zs] (concat (map (\<lambda>k. map (f k) zs) ks))"

text \<open>Modelled from the spec:
  \<^verbatim>\<open>ma.calculate_interpolation_tables(k_min, k_max, nk, nz, oversample)\<close>
  (section 4.3): \<open>nk\<close> knots over \<open>[k_min, k_max]\<close>, \<open>nz\<close> knots over
  \<open>[0, 1 + k_max]\<close>, and the three component grids, returned in the order in which
  the wrapper unpacks them. The oversampling factor refines the evaluation at a node,
  which is exact here.\<close>

definition spec_calculate_interpolation_tables ::
  "quad_law \<Rightarrow> real \<Rightarrow> real \<Rightarrow> int \<Rightarrow> int \<Rightarrow> int
   \<Rightarrow> ndarray \<times> ndarray \<times> ndarray \<times> ndarray \<times> ndarray" where
  "spec_calculate_interpolation_tables ql kmin kmax nk' nz' oversample =
     (let ks = knots kmin kmax (nat nk'); zs = knots 0 (1 + kmax) (nat nz')
      in (grid (\<lambda>k z. fst (components ql k z)) ks zs,
          grid (\<lambda>k z. fst (snd (components ql k z))) ks zs,
          grid (\<lambda>k z. snd (snd (components ql k z))) ks zs,
          NDArray [length ks] ks,
          NDArray [length zs] zs))"

text \<open>Modelled from the spec: bilinear interpolation of one grid (section 4.4): the
  enclosing cell is found in the knot arrays, and the four corner values are weighted
  by the position inside the cell.\<close>

definition cell :: "real list \<Rightarrow> real \<Rightarrow> nat" where
  "cell xs x = min (length xs - 2) (length (takeWhile (\<lambda>y. y \<le> x) xs) - 1)"

definition bilinear :: "ndarray \<Rightarrow> real list \<Rightarrow> real list \<Rightarrow> real \<Rightarrow> real \<Rightarrow> real" where
  "bilinear g ks zs k z =
     (let ik = cell ks k; iz = cell zs z;
          a = (k - ks ! ik) / (ks ! (ik + 1) - ks ! ik);
          b = (z - zs ! iz) / (zs ! (iz + 1) - zs ! iz);
          v = (\<lambda>i j. data g ! (i * length zs + j))
      in (1 - a) * (1 - b) * v ik iz + a * (1 - b) * v (ik + 1) iz
         + (1 - a) * b * v ik (iz + 1) + a * b * v (ik + 1) (iz + 1))"

definition in_knots :: "real list \<Rightarrow> real \<Rightarrow> bool" where
  "in_knots xs x = (xs \<noteq> [] \<and> hd xs \<le> x \<and> x \<le> last xs)"

text \<open>Modelled from the spec:
  \<^verbatim>\<open>ma.eval_quad_bilerp(z, k, u, c, nthr, ed, ld, le, kt, zt)\<close> (section 4.4): each
  component grid interpolated at \<open>(k, z)\<close> and recombined with the coefficients as the
  exact routine would; outside the range of the table, the exact routine instead.\<close>

definition spec_eval_quad_bilerp ::
  "quad_law \<Rightarrow> ndarray \<Rightarrow> real \<Rightarrow> ndarray \<Rightarrow> real \<Rightarrow> int \<Rightarrow>
   ndarray \<Rightarrow> ndarray \<Rightarrow> ndarray \<Rightarrow> ndarray \<Rightarrow> ndarray \<Rightarrow> ndarray" where
  "spec_eval_quad_bilerp ql z k u c n ed' ld' le' kt' zt' =
     NDArray [asize z, bands u]
       (concat (map (\<lambda>x. map (\<lambda>b.
                  blend c
                    (if in_knots (data kt') k \<and> in_knots (data zt') x
                     then recombine ql (bilinear ed' (data kt') (data zt') k x)
                                       (bilinear le' (data kt') (data zt') k x)
                                       (bilinear ld' (data kt') (data zt') k x)
                                       (data u ! b) (data u ! (bands u + b))
                     else quadratic_flux ql x k (data u ! b) (data u ! (bands u + b))))
                  [0..<bands u])
                (data z)))"

text \<open>Modelled from the spec: the module \<^verbatim>\<open>mandelagol_f\<close> as the spec describes its
  four routines.\<close>

definition ma_spec :: "quad_law \<Rightarrow> ma_module" where
  "ma_spec ql =
     \<lparr>calculate_interpolation_tables = spec_calculate_interpolation_tables ql,
      eval_uniform = spec_eval_uniform,
      eval_quad_multiband = spec_eval_quad_multiband ql,
      eval_quad_bilerp = spec_eval_quad_bilerp ql\<rparr>"

text \<open>Modelled from the spec: \<^verbatim>\<open>TransitModel.__init__\<close>, which is not in the sources
  (sections 3 and 4.5): the supersampling factor and the exposure time are kept, and
  supersampling is in effect for a factor above 1. No time series has been seen yet.\<close>

definition spec_tm_init :: "int \<Rightarrow> int \<Rightarrow> bool \<Rightarrow> int \<Rightarrow> real \<Rightarrow> tm_base" where
  "spec_tm_init nldc nthr' lerp supersampling exptime' =
     \<lparr>nthr = nthr', ss = (1 < supersampling), nss = nat supersampling, npt = 0,
      exptime = exptime'\<rparr>"

text \<open>Modelled from the spec: the expansion of the time series (section 4.5): every
  time becomes \<open>nss\<close> times uniformly spaced across the exposure centred on it, the
  midpoints of \<open>nss\<close> equal parts, so that a factor of 1 keeps the time itself.\<close>

definition supersample :: "real list \<Rightarrow> nat \<Rightarrow> real \<Rightarrow> real list" where
  "supersample ts n ex =
     concat (map (\<lambda>t. map (\<lambda>i. t - ex / 2 + ex * (real i + 1 / 2) / real n) [0..<n]) ts)"

text \<open>Modelled from the spec: the projected separation of a circular orbit
  (section 4.1), with the mean anomaly \<open>M = 2 pi ((t - t0) / p mod 1)\<close>.\<close>

definition circular_z :: "real \<Rightarrow> real \<Rightarrow> real \<Rightarrow> real \<Rightarrow> real \<Rightarrow> real \<Rightarrow> real" where
  "circular_z t t0 p a i w =
     a * sqrt (1 - (sin (w + 2 * pi * frac ((t - t0) / p)))\<^sup>2 * (sin i)\<^sup>2)"

text \<open>Modelled from the spec: \<^verbatim>\<open>TransitModel._calculate_z\<close>, which is not in the
  sources (sections 4.1 and 4.5), for circular orbits: the number of observations is
  recorded, the times are expanded when supersampling is in effect, and every time
  gives one separation, in order.\<close>

definition spec_calculate_z ::
  "tm_base \<Rightarrow> ndarray \<Rightarrow> real \<Rightarrow> real \<Rightarrow> real \<Rightarrow> real \<Rightarrow> real \<Rightarrow> real \<Rightarrow> bool \<Rightarrow> ndarray \<times> tm_base" where
  "spec_calculate_z b t t0 p a i e w lerp_z =
     (let ts = (if ss b then supersample (data t) (nss b) (exptime b) else data t);
          zs = map (\<lambda>x. circular_z x t0 p a i w) ts
      in (NDArray [length zs] zs, b\<lparr>npt := asize t\<rparr>))"

definition tm_spec :: tm_module where
  "tm_spec = \<lparr>tm_init = spec_tm_init, calculate_z = spec_calculate_z\<rparr>"

text \<open>The quadratic law without limb darkening, whose single component, the blocked
  fraction of the disk, the spec defines; it stands for the quadratic law where a
  theorem is run on concrete input.\<close>

definition flat_law :: quad_law where
  "flat_law =
     \<lparr>components = (\<lambda>k z. (0, overlap_area z k / pi, 0)),
      recombine = (\<lambda>e l d u1 u2. 1 - l)\<rparr>"

section \<open>Example objects\<close>

text \<open>The objects that \<^verbatim>\<open>__init__\<close> builds, over the modules of the previous
  section, for three configurations: the uniform law, the quadratic law with a
  supersampling factor of 2, and the quadratic law with a 2 by 2 interpolation table.
  The theorems below are run on them.\<close>

definition uniform_example :: model where
  "uniform_example =
     \<lparr>base = \<lparr>nthr = 0, ss = False, nss = 0, npt = 0, exptime = 2 / 100\<rparr>,
      tabs = None, p_eval_nolerp = Eval_nolerp_uniform, p_eval_lerp = None,
      p_eval = Eval_nolerp_uniform\<rparr>"

definition supersampled_example :: model where
  "supersampled_example =
     \<lparr>base = \<lparr>nthr = 0, ss = True, nss = 2, npt = 0, exptime = 2 / 100\<rparr>,
      tabs = None, p_eval_nolerp = Eval_nolerp_quadratic, p_eval_lerp = Some Eval_lerp_quadratic,
      p_eval = Eval_nolerp_quadratic\<rparr>"

definition lerp_example :: model where
  "lerp_example =
     (case spec_calculate_interpolation_tables flat_law (7 / 100) (13 / 100) 2 2 4 of
        (ed', le', ld', kt', zt') \<Rightarrow>
          \<lparr>base = \<lparr>nthr = 0, ss = False, nss = 0, npt = 0, exptime = 2 / 100\<rparr>,
           tabs = Some \<lparr>ed = ed', le = le', ld = ld', kt = kt', zt = zt',
                        klims = (7 / 100, 13 / 100), nk = 2, nz = 2\<rparr>,
           p_eval_nolerp = Eval_nolerp_quadratic, p_eval_lerp = Some Eval_lerp_quadratic,
           p_eval = Eval_lerp_quadratic\<rparr>)"

section \<open>Facts about the operations\<close>

lemma call_state: "fst (snd (call ma m z k u c b upd)) = m"
  by (simp add: call_def split: prod.splits sum.splits)

text \<open>No evaluator reads \<^verbatim>\<open>update\<close>, and none calls the table builder.\<close>

lemma apply_evaluator_update:
  "apply_evaluator ev ma m z k u c True = apply_evaluator ev ma m z k u c False"
  by (cases ev) (simp_all add: eval_nolerp_uniform_def eval_nolerp_quadratic_def eval_lerp_quadratic_def)

lemma apply_evaluator_calls:
  "Call_calculate_interpolation_tables \<notin> set (snd (apply_evaluator ev ma m z k u c upd))"
  by (cases ev)
     (simp_all add: eval_nolerp_uniform_def eval_nolerp_quadratic_def eval_lerp_quadratic_def
        split: option.splits)

lemma call_update: "call ma m z k u c b True = call ma m z k u c b False"
  by (simp add: call_def apply_evaluator_update)

lemma call_calls:
  "Call_calculate_interpolation_tables \<notin> set (snd (snd (call ma m z k u c b upd)))"
proof -
  have "snd (snd (call ma m z k u c b upd)) = snd (apply_evaluator (p_eval m) ma m z k u c upd)"
    by (simp add: call_def split: prod.splits sum.splits)
  with apply_evaluator_calls [of "p_eval m" ma m z k u c upd] show ?thesis by simp
qed

lemma init_uniform:
  "init ma tm 0 n lerp s ex kl nk' nz' = (Inr m, cs) \<Longrightarrow> p_eval m = Eval_nolerp_uniform"
  by (auto simp: init_def Let_def split: prod.splits if_splits)

lemma call_uniform:
  "p_eval m = Eval_nolerp_uniform \<Longrightarrow>
   call ma m z k u c b upd =
     (Inr (if ndim u > 1 then eval_uniform ma z k c (nthr (base m))
           else ravel (eval_uniform ma z k c (nthr (base m)))), m, [Call_eval_uniform])"
  by (simp add: call_def eval_nolerp_uniform_def)

text \<open>The value of \<^verbatim>\<open>evaluate\<close>, once the separations and the flux are known.\<close>

lemma evaluate_value:
  assumes "calculate_z tm (base m) t t0 p a i e w lz = (z, b')"
    and "fst (call ma (m\<lparr>base := b'\<rparr>) z k u c (of_bool upd) True) = Inr flux"
  shows "fst (evaluate ma tm m t k u t0 p a i e w c upd lz) =
           (if ss b'
            then (case reshape flux [npt b', nss b'] of Inl err \<Rightarrow> Inl err | Inr f2 \<Rightarrow> mean1 f2)
            else Inr flux)"
proof -
  obtain r m' cs where c: "call ma (m\<lparr>base := b'\<rparr>) z k u c (of_bool upd) True = (r, m', cs)"
    by (cases "call ma (m\<lparr>base := b'\<rparr>) z k u c (of_bool upd) True") auto
  from c assms(2) have r: "r = Inr flux" by simp
  from c call_state [of ma "m\<lparr>base := b'\<rparr>" z k u c "of_bool upd" True]
  have m': "m' = m\<lparr>base := b'\<rparr>" by simp
  show ?thesis
    unfolding evaluate_def using assms(1) c r m'
    by (simp split: sum.splits)
qed

lemma evaluate_state:
  assumes "calculate_z tm (base m) t t0 p a i e w lz = (z, b')"
  shows "fst (snd (evaluate ma tm m t k u t0 p a i e w c upd lz)) = m\<lparr>base := b'\<rparr>"
proof -
  obtain r m' cs where c: "call ma (m\<lparr>base := b'\<rparr>) z k u c (of_bool upd) True = (r, m', cs)"
    by (cases "call ma (m\<lparr>base := b'\<rparr>) z k u c (of_bool upd) True") auto
  from c call_state [of ma "m\<lparr>base := b'\<rparr>" z k u c "of_bool upd" True]
  have m': "m' = m\<lparr>base := b'\<rparr>" by simp
  show ?thesis
    unfolding evaluate_def using assms(1) c m'
    by (simp split: sum.splits)
qed

text \<open>The mean along the second axis of a two-dimensional array, row by row.\<close>

lemma mean1_2d:
  "mean1 (NDArray [r, c] xs) =
     Inr (NDArray [r] (map (\<lambda>i. sum_list (map (\<lambda>j. xs ! (i * c + j)) [0..<c]) / real c) [0..<r]))"
proof -
  have "concat (map (\<lambda>i. [f i]) ys) = map f ys" for f :: "nat \<Rightarrow> real" and ys
    by (induction ys) simp_all
  then show ?thesis by (simp add: mean1_def)
qed

lemma block_take_drop:
  assumes "i * c + c \<le> length xs"
  shows "map (\<lambda>j. xs ! (i * c + j)) [0..<c] = take c (drop (i * c) xs)"
  using assms by (intro nth_equalityI) simp_all

text \<open>The reduction \<^verbatim>\<open>flux.reshape((r, c)).mean(1)\<close> of \<open>r * c\<close> elements: the means
  of the \<open>r\<close> consecutive blocks of \<open>c\<close> elements.\<close>

lemma reduce_blocks:
  assumes "length xs = r * c"
  shows "(case reshape (NDArray s xs) [r, c] of Inl err \<Rightarrow> Inl err | Inr f2 \<Rightarrow> mean1 f2) =
           Inr (NDArray [r] (map (\<lambda>i. sum_list (take c (drop (i * c) xs)) / real c) [0..<r]))"
proof -
  have "map (\<lambda>j. xs ! (i * c + j)) [0..<c] = take c (drop (i * c) xs)" if "i < r" for i
  proof (rule block_take_drop)
    from that have "Suc i \<le> r" by simp
    then have "Suc i * c \<le> r * c" by (rule mult_le_mono1)
    with assms show "i * c + c \<le> length xs" by simp
  qed
  then have "map (\<lambda>i. sum_list (map (\<lambda>j. xs ! (i * c + j)) [0..<c]) / real c) [0..<r] =
             map (\<lambda>i. sum_list (take c (drop (i * c) xs)) / real c) [0..<r]"
    by simp
  with assms show ?thesis by (simp add: reshape_def asize_def mean1_2d)
qed

lemma supersampled_result_flat:
  assumes "calculate_z tm (base m) t t0 p a i e w lz = (z, b')" and "ss b'"
    and "fst (evaluate ma tm m t k u t0 p a i e w c upd lz) = Inr r"
  shows "shape r = [npt b']"
proof -
  obtain v m' cs where c: "call ma (m\<lparr>base := b'\<rparr>) z k u c (of_bool upd) True = (v, m', cs)"
    by (cases "call ma (m\<lparr>base := b'\<rparr>) z k u c (of_bool upd) True") auto
  from c call_state [of ma "m\<lparr>base := b'\<rparr>" z k u c "of_bool upd" True]
  have m': "m' = m\<lparr>base := b'\<rparr>" by simp
  from assms(3) show ?thesis
    unfolding evaluate_def using assms(1,2) c m'
    by (auto simp: reshape_def mean1_def split: sum.splits if_splits)
qed

lemma init_quadratic_lerp:
  "init ma tm 2 n True s ex kl nk' nz' =
     (case calculate_interpolation_tables ma (fst kl) (snd kl) nk' nz' 4 of
        (e, l, d, kts, zts) \<Rightarrow>
          (Inr \<lparr>base = tm_init tm 2 n True s ex,
                tabs = Some \<lparr>ed = e, le = l, ld = d, kt = kts, zt = zts,
                             klims = kl, nk = nk', nz = nz'\<rparr>,
                p_eval_nolerp = Eval_nolerp_quadratic, p_eval_lerp = Some Eval_lerp_quadratic,
                p_eval = Eval_lerp_quadratic\<rparr>,
           [Call_calculate_interpolation_tables]))"
  by (simp add: init_def Let_def split: prod.splits)

lemma call_lerp:
  assumes "p_eval m = Eval_lerp_quadratic" and "tabs m = Some tb"
  shows "call ma m z k u c b upd =
     (Inr (if ndim u > 1
           then eval_quad_bilerp ma z k (prepare_u u) c (nthr (base m))
                  (ed tb) (ld tb) (le tb) (kt tb) (zt tb)
           else ravel (eval_quad_bilerp ma z k (prepare_u u) c (nthr (base m))
                  (ed tb) (ld tb) (le tb) (kt tb) (zt tb))),
      m, [Call_eval_quad_bilerp])"
  using assms by (simp add: call_def eval_lerp_quadratic_def)

lemma call_quadratic:
  "p_eval m = Eval_nolerp_quadratic \<Longrightarrow>
   call ma m z k u c b upd =
     (Inr (if ndim u > 1 then eval_quad_multiband ma z k (prepare_u u) c (nthr (base m))
           else ravel (eval_quad_multiband ma z k (prepare_u u) c (nthr (base m)))),
      m, [Call_eval_quad_multiband])"
  by (simp add: call_def eval_nolerp_quadratic_def)

lemma no_overlap_uniform: "1 + k \<le> x \<Longrightarrow> blend c (uniform_flux x k) = 1"
  by (simp add: blend_def uniform_flux_def overlap_area_def)


text \<open>The wrapper passes the coefficients on transposed: \<open>nb\<close> bands given as
  \<open>nb\<close> pairs arrive as two rows of \<open>nb\<close>, a single pair as one band.\<close>

lemma prepare_u_bands:
  assumes "shape u = [nb, 2]"
  shows "bands (prepare_u u) = nb"
proof -
  from assms have "shape (prepare_u u) = [2, nb]"
    by (simp add: prepare_u_def transposeT_def ndim_def Let_def)
  then show ?thesis by (simp add: bands_def)
qed

lemma init_nolerp_quadratic:
  "init ma tm 2 n False s ex kl nk' nz' = (Inr m, cs) \<Longrightarrow> p_eval m = Eval_nolerp_quadratic"
  by (auto simp: init_def Let_def)

lemma init_lerp_quadratic:
  assumes "init ma tm 2 n True s ex kl nk' nz' = (Inr m, cs)"
  shows "p_eval m = Eval_lerp_quadratic \<and> (\<exists>tb. tabs m = Some tb)"
  using assms by (auto simp: init_quadratic_lerp split: prod.splits)







text \<open>The quadratic routine of the specification, called through the wrapper with the
  coefficients of \<open>nb\<close> bands, returns one column per band.\<close>

lemma spec_multiband_shape:
  assumes "shape u = [nb, 2]"
  shows "shape (spec_eval_quad_multiband ql z k (prepare_u u) c n) = [asize z, nb]"
proof -
  from assms have "shape (prepare_u u) = [2, nb]"
    by (simp add: prepare_u_def transposeT_def ndim_def Let_def)
  then show ?thesis by (simp add: spec_eval_quad_multiband_def bands_def)
qed

section \<open>Construction\<close>

text \<open>
  Claim C3. Every \<^verbatim>\<open>nldc\<close> other than 0 (uniform) and 2 (quadratic), 1 included,
  makes \<^verbatim>\<open>__init__\<close> raise \<^verbatim>\<open>NotImplementedError\<close> at once: no object is returned
  and no routine of \<^verbatim>\<open>ma\<close> has been called, so no evaluation can follow. For
  \<^verbatim>\<open>nldc\<close> 0 or 2 the construction does not raise this error.
\<close>

theorem init_rejects_unsupported_nldc:
  "(nldc \<noteq> 0 \<and> nldc \<noteq> 2 \<longrightarrow>
      init ma tm nldc n lerp s ex kl nk' nz' = (Inl NotImplementedError, []))
   \<and> (nldc = 0 \<or> nldc = 2 \<longrightarrow>
      fst (init ma tm nldc n lerp s ex kl nk' nz') \<noteq> Inl NotImplementedError)"
  by (auto simp: init_def Let_def split: prod.splits)

theorem init_rejects_unsupported_nldc_witness:
  "init (ma_spec flat_law) tm_spec 1 0 False 0 (2 / 100) (7 / 100, 13 / 100) 128 256
     = (Inl NotImplementedError, [])
   \<and> fst (init (ma_spec flat_law) tm_spec 2 0 False 0 (2 / 100) (7 / 100, 13 / 100) 128 256)
     \<noteq> Inl NotImplementedError"
  using init_rejects_unsupported_nldc
          [of 1 "ma_spec flat_law" tm_spec 0 False 0 "2 / 100" "(7 / 100, 13 / 100)" 128 256]
        init_rejects_unsupported_nldc
          [of 2 "ma_spec flat_law" tm_spec 0 False 0 "2 / 100" "(7 / 100, 13 / 100)" 128 256]
  by simp

text \<open>
  Claim C8. Interpolation exists for the quadratic law only. With the uniform law
  (\<^verbatim>\<open>nldc = 0\<close>) and \<^verbatim>\<open>lerp = True\<close> the attribute \<^verbatim>\<open>_eval_lerp\<close> is never set,
  so the last statement of \<^verbatim>\<open>__init__\<close> raises \<^verbatim>\<open>AttributeError\<close>: the table has
  been computed, no object is returned, and no interpolated evaluation has been or can
  be made.
\<close>

theorem init_uniform_lerp_fails:
  "init ma tm 0 n True s ex kl nk' nz' = (Inl AttributeError, [Call_calculate_interpolation_tables])"
  by (simp add: init_def Let_def split: prod.splits)

section \<open>Evaluation\<close>

text \<open>
  Claim C10. For an object built with the uniform law (\<^verbatim>\<open>nldc = 0\<close>), two calls that
  differ only in the numbers in \<^verbatim>\<open>u\<close>, the dimension of \<^verbatim>\<open>u\<close> being the same, give
  the same result, from \<^verbatim>\<open>__call__\<close> and from \<^verbatim>\<open>evaluate\<close>: \<^verbatim>\<open>u\<close> is not passed to
  the uniform routine.
\<close>

theorem uniform_flux_independent_of_u:
  assumes "init ma tm 0 n lerp s ex kl nk' nz' = (Inr m, cs)" and "ndim u = ndim u'"
  shows "call ma m z k u c b upd = call ma m z k u' c b upd
         \<and> evaluate ma tm m t k u t0 p a i e w c upd lz
           = evaluate ma tm m t k u' t0 p a i e w c upd lz"
proof -
  from assms(1) have ev: "p_eval m = Eval_nolerp_uniform" by (rule init_uniform)
  have c: "call ma m' z' k u c b' upd' = call ma m' z' k u' c b' upd'"
    if "p_eval m' = Eval_nolerp_uniform" for m' z' b' upd'
    using that assms(2) by (simp add: call_uniform)
  have "evaluate ma tm m t k u t0 p a i e w c upd lz = evaluate ma tm m t k u' t0 p a i e w c upd lz"
    unfolding evaluate_def using c [of "m\<lparr>base := b'\<rparr>" for b'] ev
    by (simp split: prod.splits)
  with c [OF ev] show ?thesis by simp
qed

theorem uniform_flux_independent_of_u_witness:
  "init (ma_spec flat_law) tm_spec 0 0 False 0 (2 / 100) (7 / 100, 13 / 100) 128 256
     = (Inr uniform_example, [])
   \<and> ndim (NDArray [2] [3 / 10, 2 / 10]) = ndim (NDArray [2] [5 / 10, 1 / 10])
   \<and> call (ma_spec flat_law) uniform_example (NDArray [2] [0, 2]) (1 / 10)
        (NDArray [2] [3 / 10, 2 / 10]) 0 (1 / 10 ^ 8) True
     = call (ma_spec flat_law) uniform_example (NDArray [2] [0, 2]) (1 / 10)
        (NDArray [2] [5 / 10, 1 / 10]) 0 (1 / 10 ^ 8) True"
proof -
  have i: "init (ma_spec flat_law) tm_spec 0 0 False 0 (2 / 100) (7 / 100, 13 / 100) 128 256
     = (Inr uniform_example, [])"
    by (simp add: init_def tm_spec_def spec_tm_init_def uniform_example_def)
  have d: "ndim (NDArray [2] [3 / 10, 2 / 10]) = ndim (NDArray [2] [5 / 10, 1 / 10])"
    by (simp add: ndim_def)
  from uniform_flux_independent_of_u [OF i d] i d show ?thesis by blast
qed

text \<open>
  Claim C6, amended. The claim has the shape of the result follow the dimension of
  \<^verbatim>\<open>u\<close> in every call; it does so for the quadratic law only. For every object
  that \<^verbatim>\<open>__init__\<close> builds, over routines that return one row per sample, and for
  the quadratic law one column per band: a call returns; a \<^verbatim>\<open>u\<close> of dimension at
  most 1 gives a flat, one-dimensional result; with the quadratic law, exact or
  interpolated, a two-dimensional \<^verbatim>\<open>u\<close> of \<open>nb\<close> coefficient pairs gives a
  two-dimensional result with one flux series per band, of shape
  \<open>(size of z, nb)\<close>; with the uniform law, which is not given \<^verbatim>\<open>u\<close>, the result is
  one-dimensional whatever the dimension of \<^verbatim>\<open>u\<close>.
\<close>

theorem call_result_shape:
  assumes quad: "\<And>z k u c n. shape (eval_quad_multiband ma z k u c n) = [asize z, bands u]"
    and bil: "\<And>z k u c n e d l kts zts.
                shape (eval_quad_bilerp ma z k u c n e d l kts zts) = [asize z, bands u]"
    and uni: "\<And>z k c n. shape (eval_uniform ma z k c n) = [asize z]"
    and built: "init ma tm nldc n lerp s ex kl nk' nz' = (Inr m, cs)"
  shows "\<exists>flux. fst (call ma m z k u c b upd) = Inr flux
           \<and> (ndim u \<le> 1 \<longrightarrow> ndim flux = 1)
           \<and> (nldc = 2 \<and> shape u = [nb, 2] \<longrightarrow> shape flux = [asize z, nb])
           \<and> (nldc = 0 \<longrightarrow> ndim flux = 1)"
proof -
  from built have "nldc = 0 \<or> nldc = 2"
    by (auto simp: init_def split: if_splits)
  then show ?thesis
  proof
    assume n0: "nldc = 0"
    with built have "p_eval m = Eval_nolerp_uniform" by (simp add: init_uniform)
    then show ?thesis using n0 uni
      by (simp add: call_uniform ndim_def ravel_def)
  next
    assume n2: "nldc = 2"
    show ?thesis
    proof (cases lerp)
      case False
      with built n2 have "p_eval m = Eval_nolerp_quadratic" by (simp add: init_nolerp_quadratic)
      then show ?thesis using n2 quad
        by (auto simp: call_quadratic ndim_def ravel_def prepare_u_bands)
    next
      case True
      with built n2 have "init ma tm 2 n True s ex kl nk' nz' = (Inr m, cs)" by simp
      from init_lerp_quadratic [OF this]
      obtain tb where "p_eval m = Eval_lerp_quadratic" and "tabs m = Some tb" by blast
      then show ?thesis using n2 bil
        by (auto simp: call_lerp ndim_def ravel_def prepare_u_bands)
    qed
  qed
qed

theorem call_result_shape_witness:
  "init (ma_spec flat_law) tm_spec 2 0 False 2 (2 / 100) (7 / 100, 13 / 100) 128 256
     = (Inr supersampled_example, [])
   \<and> init (ma_spec flat_law) tm_spec 2 0 True 0 (2 / 100) (7 / 100, 13 / 100) 2 2
     = (Inr lerp_example, [Call_calculate_interpolation_tables])
   \<and> init (ma_spec flat_law) tm_spec 0 0 False 0 (2 / 100) (7 / 100, 13 / 100) 128 256
     = (Inr uniform_example, [])
   \<and> (\<exists>flux. fst (call (ma_spec flat_law) supersampled_example (NDArray [3] [0, 1, 2]) (1 / 10)
                      (NDArray [2, 2] [3 / 10, 2 / 10, 4 / 10, 1 / 10]) 0 (1 / 10 ^ 8) True) = Inr flux
              \<and> shape flux = [3, 2])
   \<and> (\<exists>flux. fst (call (ma_spec flat_law) lerp_example (NDArray [3] [0, 1, 2]) (1 / 10)
                      (NDArray [2, 2] [3 / 10, 2 / 10, 4 / 10, 1 / 10]) 0 (1 / 10 ^ 8) True) = Inr flux
              \<and> shape flux = [3, 2])
   \<and> (\<exists>flux. fst (call (ma_spec flat_law) supersampled_example (NDArray [3] [0, 1, 2]) (1 / 10)
                      (NDArray [2] [3 / 10, 2 / 10]) 0 (1 / 10 ^ 8) True) = Inr flux
              \<and> ndim flux = 1)
   \<and> (\<exists>flux. fst (call (ma_spec flat_law) uniform_example (NDArray [3] [0, 1, 2]) (1 / 10)
                      (NDArray [2, 2] [3 / 10, 2 / 10, 4 / 10, 1 / 10]) 0 (1 / 10 ^ 8) True) = Inr flux
              \<and> ndim flux = 1)"
proof -
  have q: "shape (eval_quad_multiband (ma_spec flat_law) z k u c n) = [asize z, bands u]"
    for z k u c n by (simp add: ma_spec_def spec_eval_quad_multiband_def)
  have bl: "shape (eval_quad_bilerp (ma_spec flat_law) z k u c n e d l kts zts) = [asize z, bands u]"
    for z k u c n e d l kts zts by (simp add: ma_spec_def spec_eval_quad_bilerp_def)
  have un: "shape (eval_uniform (ma_spec flat_law) z k c n) = [asize z]"
    for z k c n by (simp add: ma_spec_def spec_eval_uniform_def)
  have i2: "init (ma_spec flat_law) tm_spec 2 0 False 2 (2 / 100) (7 / 100, 13 / 100) 128 256
     = (Inr supersampled_example, [])"
    by (simp add: init_def tm_spec_def spec_tm_init_def supersampled_example_def)
  have il: "init (ma_spec flat_law) tm_spec 2 0 True 0 (2 / 100) (7 / 100, 13 / 100) 2 2
     = (Inr lerp_example, [Call_calculate_interpolation_tables])"
    by (simp add: init_def tm_spec_def spec_tm_init_def lerp_example_def ma_spec_def
          split: prod.splits)
  have i0: "init (ma_spec flat_law) tm_spec 0 0 False 0 (2 / 100) (7 / 100, 13 / 100) 128 256
     = (Inr uniform_example, [])"
    by (simp add: init_def tm_spec_def spec_tm_init_def uniform_example_def)
  have u2: "shape (NDArray [2, 2] [3 / 10, 2 / 10, 4 / 10, 1 / 10]) = [2, 2]" by simp
  have u1: "ndim (NDArray [2] [3 / 10, 2 / 10]) \<le> 1" by (simp add: ndim_def)
  have z: "asize (NDArray [3] [0, 1, 2]) = 3" by (simp add: asize_def)
  from call_result_shape [OF q bl un i2, of "NDArray [3] [0, 1, 2]" "1 / 10"
      "NDArray [2, 2] [3 / 10, 2 / 10, 4 / 10, 1 / 10]" 0 "1 / 10 ^ 8" True 2] u2 z
  have a: "\<exists>flux. fst (call (ma_spec flat_law) supersampled_example (NDArray [3] [0, 1, 2]) (1 / 10)
                      (NDArray [2, 2] [3 / 10, 2 / 10, 4 / 10, 1 / 10]) 0 (1 / 10 ^ 8) True) = Inr flux
              \<and> shape flux = [3, 2]"
    by auto
  from call_result_shape [OF q bl un il, of "NDArray [3] [0, 1, 2]" "1 / 10"
      "NDArray [2, 2] [3 / 10, 2 / 10, 4 / 10, 1 / 10]" 0 "1 / 10 ^ 8" True 2] u2 z
  have b: "\<exists>flux. fst (call (ma_spec flat_law) lerp_example (NDArray [3] [0, 1, 2]) (1 / 10)
                      (NDArray [2, 2] [3 / 10, 2 / 10, 4 / 10, 1 / 10]) 0 (1 / 10 ^ 8) True) = Inr flux
              \<and> shape flux = [3, 2]"
    by auto
  from call_result_shape [OF q bl un i2, of "NDArray [3] [0, 1, 2]" "1 / 10"
      "NDArray [2] [3 / 10, 2 / 10]" 0 "1 / 10 ^ 8" True 2] u1
  have c: "\<exists>flux. fst (call (ma_spec flat_law) supersampled_example (NDArray [3] [0, 1, 2]) (1 / 10)
                      (NDArray [2] [3 / 10, 2 / 10]) 0 (1 / 10 ^ 8) True) = Inr flux
              \<and> ndim flux = 1"
    by auto
  from call_result_shape [OF q bl un i0, of "NDArray [3] [0, 1, 2]" "1 / 10"
      "NDArray [2, 2] [3 / 10, 2 / 10, 4 / 10, 1 / 10]" 0 "1 / 10 ^ 8" True 2]
  have d: "\<exists>flux. fst (call (ma_spec flat_law) uniform_example (NDArray [3] [0, 1, 2]) (1 / 10)
                      (NDArray [2, 2] [3 / 10, 2 / 10, 4 / 10, 1 / 10]) 0 (1 / 10 ^ 8) True) = Inr flux
              \<and> ndim flux = 1"
    by auto
  from i2 il i0 a b c d show ?thesis by blast
qed

text \<open>The claim as stated fails for the uniform law: with two bands in \<^verbatim>\<open>u\<close> the
  result is the flat series of two flux values.\<close>

theorem multiband_u_uniform_law_counterexample:
  "init (ma_spec flat_law) tm_spec 0 0 False 0 (2 / 100) (7 / 100, 13 / 100) 128 256
     = (Inr uniform_example, [])
   \<and> ndim (NDArray [2, 2] [3 / 10, 2 / 10, 4 / 10, 1 / 10]) = 2
   \<and> fst (call (ma_spec flat_law) uniform_example (NDArray [2] [2, 3]) (1 / 10)
            (NDArray [2, 2] [3 / 10, 2 / 10, 4 / 10, 1 / 10]) 0 (1 / 10 ^ 8) True)
     = Inr (NDArray [2] [1, 1])
   \<and> ndim (NDArray [2] [1, 1]) = 1"
  by (simp add: init_def tm_spec_def spec_tm_init_def uniform_example_def ndim_def
        call_def eval_nolerp_uniform_def ma_spec_def spec_eval_uniform_def asize_def
        no_overlap_uniform)

section \<open>Supersampling\<close>

text \<open>
  Claim C4. With supersampling in effect and a factor \<^verbatim>\<open>nss > 1\<close>, a single-band
  \<^verbatim>\<open>u\<close>, and a flux of \<^verbatim>\<open>npt * nss\<close> sub-sample values returned for the expanded
  series, \<^verbatim>\<open>evaluate\<close> returns exactly \<^verbatim>\<open>npt\<close> values, the \<open>j\<close>-th being the
  arithmetic mean of the \<open>j\<close>-th block of \<^verbatim>\<open>nss\<close> consecutive sub-sample values.
\<close>

theorem evaluate_supersampled_single_band:
  assumes "calculate_z tm (base m) t t0 p a i e w lz = (z, b')"
    and "ss b'" and "1 < nss b'" and "ndim u = 1"
    and "fst (call ma (m\<lparr>base := b'\<rparr>) z k u c (of_bool upd) True) = Inr flux"
    and "asize flux = npt b' * nss b'"
  shows "fst (evaluate ma tm m t k u t0 p a i e w c upd lz) =
           Inr (NDArray [npt b']
                  (map (\<lambda>j. sum_list (take (nss b') (drop (j * nss b') (data flux))) / real (nss b'))
                       [0..<npt b']))"
proof -
  from assms(6) have len: "length (data flux) = npt b' * nss b'" by (simp add: asize_def)
  have "flux = NDArray (shape flux) (data flux)" by simp
  with reduce_blocks [OF len, of "shape flux"]
  have "(case reshape flux [npt b', nss b'] of Inl err \<Rightarrow> Inl err | Inr f2 \<Rightarrow> mean1 f2) =
          Inr (NDArray [npt b']
                 (map (\<lambda>j. sum_list (take (nss b') (drop (j * nss b') (data flux))) / real (nss b'))
                      [0..<npt b']))"
    by simp
  with evaluate_value [OF assms(1) assms(5)] assms(2) show ?thesis by simp
qed

theorem evaluate_supersampled_single_band_witness:
  "let T = NDArray [2] [0, 1]; U = NDArray [2] [3 / 10, 2 / 10];
       Z = fst (spec_calculate_z (base supersampled_example) T 0 (35 / 10) 10 (pi / 2) 0 0 False);
       B = snd (spec_calculate_z (base supersampled_example) T 0 (35 / 10) 10 (pi / 2) 0 0 False);
       F = ravel (spec_eval_quad_multiband flat_law Z (1 / 10) (prepare_u U) 0 0)
   in ss B \<and> 1 < nss B \<and> ndim U = 1 \<and> npt B = 2 \<and> asize F = npt B * nss B
      \<and> fst (call (ma_spec flat_law) (supersampled_example\<lparr>base := B\<rparr>) Z (1 / 10) U 0
               (of_bool True) True) = Inr F
      \<and> fst (evaluate (ma_spec flat_law) tm_spec supersampled_example T (1 / 10) U
               0 (35 / 10) 10 (pi / 2) 0 0 0 True False)
        = Inr (NDArray [2] [(data F ! 0 + data F ! 1) / 2, (data F ! 2 + data F ! 3) / 2])"
proof -
  define T where "T = NDArray [2] [0, 1]"
  define U where "U = NDArray [2] [3 / 10, 2 / 10]"
  define Z where
    "Z = fst (spec_calculate_z (base supersampled_example) T 0 (35 / 10) 10 (pi / 2) 0 0 False)"
  define B where
    "B = snd (spec_calculate_z (base supersampled_example) T 0 (35 / 10) 10 (pi / 2) 0 0 False)"
  define F where "F = ravel (spec_eval_quad_multiband flat_law Z (1 / 10) (prepare_u U) 0 0)"
  have B: "B = \<lparr>nthr = 0, ss = True, nss = 2, npt = 2, exptime = 2 / 100\<rparr>"
    by (simp add: B_def T_def spec_calculate_z_def supersampled_example_def Let_def asize_def)
  have lz: "length (data Z) = 4"
    by (simp add: Z_def T_def spec_calculate_z_def supersampled_example_def Let_def
          supersample_def upt_rec)
  have pu: "prepare_u U = NDArray [2, 1] [3 / 10, 2 / 10]"
    by (simp add: U_def prepare_u_def transposeT_def ndim_def newaxis1_def flat_index_def upt_rec)
  have h1: "calculate_z tm_spec (base supersampled_example) T 0 (35 / 10) 10 (pi / 2) 0 0 False
              = (Z, B)"
    by (simp add: tm_spec_def Z_def B_def)
  have h2: "ss B" and h3: "1 < nss B" and np: "npt B = 2" by (simp_all add: B)
  have h4: "ndim U = 1" by (simp add: U_def ndim_def)
  have h5: "fst (call (ma_spec flat_law) (supersampled_example\<lparr>base := B\<rparr>) Z (1 / 10) U 0
                   (of_bool True) True) = Inr F"
    using h4
    by (simp add: call_def supersampled_example_def eval_nolerp_quadratic_def ma_spec_def F_def B)
  have lf: "length (data F) = 4"
    using lz
    by (simp add: F_def ravel_def spec_eval_quad_multiband_def pu bands_def length_concat
          comp_def sum_list_triv)
  then have h6: "asize F = npt B * nss B" by (simp add: asize_def B)
  from lf obtain f0 f1 f2 f3 where fd: "data F = [f0, f1, f2, f3]"
    by (auto simp: length_Suc_conv numeral_eq_Suc)
  have "fst (evaluate (ma_spec flat_law) tm_spec supersampled_example T (1 / 10) U
               0 (35 / 10) 10 (pi / 2) 0 0 0 True False)
        = Inr (NDArray [2] [(data F ! 0 + data F ! 1) / 2, (data F ! 2 + data F ! 3) / 2])"
    using evaluate_supersampled_single_band [OF h1 h2 h3 h4 h5 h6]
    by (simp add: B fd upt_rec)
  with h2 h3 h4 np h5 h6 show ?thesis
    unfolding Let_def T_def U_def Z_def B_def F_def by blast
qed

text \<open>
  Claim C5. With a supersampling factor of at most 1 the supersampling stage is the
  identity. The code decides on \<^verbatim>\<open>self.ss\<close>: when it is off, \<^verbatim>\<open>evaluate\<close>
  returns the flux of \<^verbatim>\<open>__call__\<close> untouched, for every input; when it is on, the
  factor being 1 (the base class does not switch the reduction on for a factor of 0),
  the reduction \<^verbatim>\<open>reshape((npt, 1)).mean(1)\<close> gives back every flux array of length
  \<^verbatim>\<open>npt\<close>.
\<close>

theorem evaluate_without_supersampling:
  assumes "calculate_z tm (base m) t t0 p a i e w lz = (z, b')"
    and "nss b' \<le> 1"
    and "ss b' \<longrightarrow> 0 < nss b'"
    and "fst (call ma (m\<lparr>base := b'\<rparr>) z k u c (of_bool upd) True) = Inr flux"
    and "ss b' \<longrightarrow> shape flux = [npt b'] \<and> asize flux = npt b'"
  shows "fst (evaluate ma tm m t k u t0 p a i e w c upd lz) = Inr flux"
proof (cases "ss b'")
  case False
  with evaluate_value [OF assms(1) assms(4)] show ?thesis by simp
next
  case True
  with assms(2,3) have one: "nss b' = 1" by simp
  from True assms(5) have sh: "shape flux = [npt b']" and len: "length (data flux) = npt b' * 1"
    by (simp_all add: asize_def)
  have "take (Suc 0) (drop j (data flux)) = [data flux ! j]" if "j < npt b'" for j
    using that len by (simp add: take_Suc_conv_app_nth hd_drop_conv_nth take_Suc)
  then have "map (\<lambda>j. sum_list (take 1 (drop (j * 1) (data flux))) / real (1::nat)) [0..<npt b']
             = map (\<lambda>j. data flux ! j) [0..<npt b']"
    by simp
  also have "\<dots> = data flux" using len map_nth [of "data flux"] by simp
  finally have "(case reshape (NDArray (shape flux) (data flux)) [npt b', 1] of
                   Inl err \<Rightarrow> Inl err | Inr f2 \<Rightarrow> mean1 f2) = Inr (NDArray [npt b'] (data flux))"
    using reduce_blocks [OF len, of "shape flux"] by simp
  moreover have "NDArray [npt b'] (data flux) = flux" using sh by (cases flux) simp
  ultimately show ?thesis
    using evaluate_value [OF assms(1) assms(4)] True one by simp
qed

theorem evaluate_without_supersampling_witness:
  "let T = NDArray [2] [0, 1]; U = NDArray [2] [3 / 10, 2 / 10];
       M = supersampled_example\<lparr>base := \<lparr>nthr = 0, ss = True, nss = 1, npt = 0, exptime = 2 / 100\<rparr>\<rparr>;
       Z = fst (spec_calculate_z (base M) T 0 (35 / 10) 10 (pi / 2) 0 0 False);
       B = snd (spec_calculate_z (base M) T 0 (35 / 10) 10 (pi / 2) 0 0 False);
       F = ravel (spec_eval_quad_multiband flat_law Z (1 / 10) (prepare_u U) 0 0);
       Z' = fst (spec_calculate_z (base uniform_example) T 0 (35 / 10) 10 (pi / 2) 0 0 False);
       B' = snd (spec_calculate_z (base uniform_example) T 0 (35 / 10) 10 (pi / 2) 0 0 False);
       F' = ravel (spec_eval_uniform Z' (1 / 10) 0 0)
   in nss B \<le> 1 \<and> ss B \<and> 0 < nss B \<and> shape F = [npt B] \<and> asize F = npt B
      \<and> fst (evaluate (ma_spec flat_law) tm_spec M T (1 / 10) U
               0 (35 / 10) 10 (pi / 2) 0 0 0 True False) = Inr F
      \<and> nss B' \<le> 1 \<and> \<not> ss B'
      \<and> fst (evaluate (ma_spec flat_law) tm_spec uniform_example T (1 / 10) U
               0 (35 / 10) 10 (pi / 2) 0 0 0 True False) = Inr F'"
proof -
  define T where "T = NDArray [2] [0, 1]"
  define U where "U = NDArray [2] [3 / 10, 2 / 10]"
  define M where
    "M = supersampled_example\<lparr>base := \<lparr>nthr = 0, ss = True, nss = 1, npt = 0, exptime = 2 / 100\<rparr>\<rparr>"
  define Z where "Z = fst (spec_calculate_z (base M) T 0 (35 / 10) 10 (pi / 2) 0 0 False)"
  define B where "B = snd (spec_calculate_z (base M) T 0 (35 / 10) 10 (pi / 2) 0 0 False)"
  define F where "F = ravel (spec_eval_quad_multiband flat_law Z (1 / 10) (prepare_u U) 0 0)"
  define Z' where
    "Z' = fst (spec_calculate_z (base uniform_example) T 0 (35 / 10) 10 (pi / 2) 0 0 False)"
  define B' where
    "B' = snd (spec_calculate_z (base uniform_example) T 0 (35 / 10) 10 (pi / 2) 0 0 False)"
  define F' where "F' = ravel (spec_eval_uniform Z' (1 / 10) 0 0)"
  have B: "B = \<lparr>nthr = 0, ss = True, nss = 1, npt = 2, exptime = 2 / 100\<rparr>"
    by (simp add: B_def M_def T_def spec_calculate_z_def Let_def asize_def)
  have B': "B' = \<lparr>nthr = 0, ss = False, nss = 0, npt = 2, exptime = 2 / 100\<rparr>"
    by (simp add: B'_def T_def spec_calculate_z_def uniform_example_def Let_def asize_def)
  have lz: "length (data Z) = 2"
    by (simp add: Z_def M_def T_def spec_calculate_z_def Let_def supersample_def)
  have pu: "prepare_u U = NDArray [2, 1] [3 / 10, 2 / 10]"
    by (simp add: U_def prepare_u_def transposeT_def ndim_def newaxis1_def flat_index_def upt_rec)
  have u1: "\<not> 1 < ndim U" by (simp add: U_def ndim_def)
  have h1: "calculate_z tm_spec (base M) T 0 (35 / 10) 10 (pi / 2) 0 0 False = (Z, B)"
    by (simp add: tm_spec_def Z_def B_def)
  have h2: "nss B \<le> 1" and h3: "ss B \<longrightarrow> 0 < nss B" and s: "ss B" and n: "0 < nss B"
    by (simp_all add: B)
  have h4: "fst (call (ma_spec flat_law) (M\<lparr>base := B\<rparr>) Z (1 / 10) U 0 (of_bool True) True) = Inr F"
    using u1
    by (simp add: call_def M_def supersampled_example_def eval_nolerp_quadratic_def ma_spec_def
          F_def B)
  have lf: "length (data F) = 2"
    using lz
    by (simp add: F_def ravel_def spec_eval_quad_multiband_def pu bands_def length_concat
          comp_def sum_list_triv)
  then have sh: "shape F = [npt B]" and sz: "asize F = npt B"
    by (simp_all add: F_def ravel_def asize_def B)
  then have h5: "ss B \<longrightarrow> shape F = [npt B] \<and> asize F = npt B" by simp
  have e1: "fst (evaluate (ma_spec flat_law) tm_spec M T (1 / 10) U
               0 (35 / 10) 10 (pi / 2) 0 0 0 True False) = Inr F"
    by (rule evaluate_without_supersampling [OF h1 h2 h3 h4 h5])
  have g1: "calculate_z tm_spec (base uniform_example) T 0 (35 / 10) 10 (pi / 2) 0 0 False
              = (Z', B')"
    by (simp add: tm_spec_def Z'_def B'_def)
  have g2: "nss B' \<le> 1" and g3: "ss B' \<longrightarrow> 0 < nss B'" and ns: "\<not> ss B'"
    by (simp_all add: B')
  have g4: "fst (call (ma_spec flat_law) (uniform_example\<lparr>base := B'\<rparr>) Z' (1 / 10) U 0
                   (of_bool True) True) = Inr F'"
    using u1
    by (simp add: call_def uniform_example_def eval_nolerp_uniform_def ma_spec_def F'_def B')
  from ns have g5: "ss B' \<longrightarrow> shape F' = [npt B'] \<and> asize F' = npt B'" by simp
  have e2: "fst (evaluate (ma_spec flat_law) tm_spec uniform_example T (1 / 10) U
               0 (35 / 10) 10 (pi / 2) 0 0 0 True False) = Inr F'"
    by (rule evaluate_without_supersampling [OF g1 g2 g3 g4 g5])
  from h2 s n sh sz e1 g2 ns e2 show ?thesis
    unfolding Let_def T_def U_def M_def Z_def B_def F_def Z'_def B'_def F'_def by blast
qed

text \<open>
  Claim C9. With supersampling in effect, \<^verbatim>\<open>nss > 1\<close>, at least one observation and
  a multi-band \<^verbatim>\<open>u\<close>, for which \<^verbatim>\<open>__call__\<close> returns the two-dimensional flux
  array with one row per sub-sample and one column per band, more than one band makes
  \<^verbatim>\<open>reshape((npt, nss))\<close> raise \<^verbatim>\<open>ValueError\<close>: no per-band reduced flux is
  returned. (By \<open>supersampled_result_flat\<close> a supersampled evaluation that returns at
  all returns a one-dimensional array of \<^verbatim>\<open>npt\<close> values.)
\<close>

theorem supersampled_multiband_raises:
  assumes "calculate_z tm (base m) t t0 p a i e w lz = (z, b')"
    and "ss b'" and "1 < nss b'" and "0 < npt b'" and "ndim u = 2"
    and "fst (call ma (m\<lparr>base := b'\<rparr>) z k u c (of_bool upd) True) = Inr flux"
    and "shape flux = [npt b' * nss b', nb]" and "wf_array flux" and "1 < nb"
  shows "fst (evaluate ma tm m t k u t0 p a i e w c upd lz) = Inl ValueError"
proof -
  from assms(7,8) have sz: "asize flux = npt b' * nss b' * nb" by (simp add: wf_array_def)
  from assms(3,4) have "0 < npt b' * nss b'" by simp
  with assms(9) have "npt b' * nss b' * 1 < npt b' * nss b' * nb"
    by (intro mult_strict_left_mono) simp_all
  with sz have "asize flux \<noteq> npt b' * nss b'" by simp
  then have "reshape flux [npt b', nss b'] = Inl ValueError" by (simp add: reshape_def)
  with evaluate_value [OF assms(1) assms(6)] assms(2) show ?thesis by simp
qed

theorem supersampled_multiband_raises_witness:
  "let T = NDArray [2] [0, 1]; U = NDArray [2, 2] [3 / 10, 2 / 10, 4 / 10, 1 / 10];
       Z = fst (spec_calculate_z (base supersampled_example) T 0 (35 / 10) 10 (pi / 2) 0 0 False);
       B = snd (spec_calculate_z (base supersampled_example) T 0 (35 / 10) 10 (pi / 2) 0 0 False);
       F = spec_eval_quad_multiband flat_law Z (1 / 10) (prepare_u U) 0 0
   in ss B \<and> 1 < nss B \<and> 0 < npt B \<and> ndim U = 2
      \<and> fst (call (ma_spec flat_law) (supersampled_example\<lparr>base := B\<rparr>) Z (1 / 10) U 0
               (of_bool True) True) = Inr F
      \<and> shape F = [npt B * nss B, 2] \<and> wf_array F
      \<and> fst (evaluate (ma_spec flat_law) tm_spec supersampled_example T (1 / 10) U
               0 (35 / 10) 10 (pi / 2) 0 0 0 True False) = Inl ValueError"
proof -
  define T where "T = NDArray [2] [0, 1]"
  define U where "U = NDArray [2, 2] [3 / 10, 2 / 10, 4 / 10, 1 / 10]"
  define Z where
    "Z = fst (spec_calculate_z (base supersampled_example) T 0 (35 / 10) 10 (pi / 2) 0 0 False)"
  define B where
    "B = snd (spec_calculate_z (base supersampled_example) T 0 (35 / 10) 10 (pi / 2) 0 0 False)"
  define F where "F = spec_eval_quad_multiband flat_law Z (1 / 10) (prepare_u U) 0 0"
  have B: "B = \<lparr>nthr = 0, ss = True, nss = 2, npt = 2, exptime = 2 / 100\<rparr>"
    by (simp add: B_def T_def spec_calculate_z_def supersampled_example_def Let_def asize_def)
  have lz: "length (data Z) = 4"
    by (simp add: Z_def T_def spec_calculate_z_def supersampled_example_def Let_def
          supersample_def upt_rec)
  have pu: "prepare_u U = NDArray [2, 2] [3 / 10, 4 / 10, 2 / 10, 1 / 10]"
    by (simp add: U_def prepare_u_def transposeT_def ndim_def newaxis1_def flat_index_def upt_rec)
  have h1: "calculate_z tm_spec (base supersampled_example) T 0 (35 / 10) 10 (pi / 2) 0 0 False
              = (Z, B)"
    by (simp add: tm_spec_def Z_def B_def)
  have h2: "ss B" and h3: "1 < nss B" and h4: "0 < npt B" by (simp_all add: B)
  have h5: "ndim U = 2" by (simp add: U_def ndim_def)
  have h6: "fst (call (ma_spec flat_law) (supersampled_example\<lparr>base := B\<rparr>) Z (1 / 10) U 0
                   (of_bool True) True) = Inr F"
    using h5
    by (simp add: call_def supersampled_example_def eval_nolerp_quadratic_def ma_spec_def F_def B)
  have h7: "shape F = [npt B * nss B, 2]"
    using lz by (simp add: F_def spec_eval_quad_multiband_def pu bands_def asize_def B)
  have h8: "wf_array F"
    using lz
    by (simp add: F_def wf_array_def asize_def spec_eval_quad_multiband_def pu bands_def
          length_concat comp_def sum_list_triv)
  have h9: "(1::nat) < 2" by simp
  have "fst (evaluate (ma_spec flat_law) tm_spec supersampled_example T (1 / 10) U
               0 (35 / 10) 10 (pi / 2) 0 0 0 True False) = Inl ValueError"
    by (rule supersampled_multiband_raises [OF h1 h2 h3 h4 h5 h6 h7 h8 h9])
  with h2 h3 h4 h5 h6 h7 h8 show ?thesis
    unfolding Let_def T_def U_def Z_def B_def F_def by blast
qed

section \<open>The interpolation table\<close>

text \<open>
  Claim C2. No evaluation changes the stored table: \<^verbatim>\<open>__call__\<close> returns the
  object as it received it, with the grids \<^verbatim>\<open>ed\<close>, \<^verbatim>\<open>le\<close>, \<^verbatim>\<open>ld\<close>, the knots
  \<^verbatim>\<open>kt\<close>, \<^verbatim>\<open>zt\<close> and the parameters \<^verbatim>\<open>klims\<close>, \<^verbatim>\<open>nk\<close>, \<^verbatim>\<open>nz\<close>, and
  \<^verbatim>\<open>evaluate\<close> changes base-class attributes only. This holds for every object, so
  for every one built with interpolation.
\<close>

theorem evaluation_leaves_tables:
  "fst (snd (call ma m z k u c b upd)) = m
   \<and> tabs (fst (snd (evaluate ma tm m t k u t0 p a i e w c upd lz))) = tabs m"
proof -
  obtain z' b' where cz: "calculate_z tm (base m) t t0 p a i e w lz = (z', b')"
    by (cases "calculate_z tm (base m) t t0 p a i e w lz") auto
  from evaluate_state [OF cz, of ma k u c upd] call_state [of ma m z k u c b upd]
  show ?thesis by simp
qed

text \<open>
  Claim C1, which the code does not meet. The claim has \<^verbatim>\<open>update=True\<close> rebuild the
  table before the evaluation. For every object built with the quadratic law and
  interpolation, the table is the one computed in \<^verbatim>\<open>__init__\<close> from
  \<^verbatim>\<open>klims\<close>, \<^verbatim>\<open>nk\<close>, \<^verbatim>\<open>nz\<close>, and a call, whatever \<^verbatim>\<open>update\<close> is, consists of
  the single call \<^verbatim>\<open>ma.eval_quad_bilerp\<close> on that stored table and leaves the object
  as it was: the flag is ignored, and nothing is rebuilt. (For every object, by
  \<open>call_update\<close> and \<open>call_calls\<close>.)
\<close>

theorem update_flag_is_ignored:
  "case calculate_interpolation_tables ma (fst kl) (snd kl) nk' nz' 4 of
     (e, l, d, kts, zts) \<Rightarrow>
       (\<exists>m. init ma tm 2 n True s ex kl nk' nz' = (Inr m, [Call_calculate_interpolation_tables])
          \<and> tabs m = Some \<lparr>ed = e, le = l, ld = d, kt = kts, zt = zts,
                            klims = kl, nk = nk', nz = nz'\<rparr>
          \<and> (\<forall>upd. call ma m z k u c b upd =
                (Inr (if ndim u > 1
                      then eval_quad_bilerp ma z k (prepare_u u) c (nthr (base m)) e d l kts zts
                      else ravel (eval_quad_bilerp ma z k (prepare_u u) c (nthr (base m)) e d l kts zts)),
                 m, [Call_eval_quad_bilerp])))"
proof -
  obtain e l d kts zts
    where t: "calculate_interpolation_tables ma (fst kl) (snd kl) nk' nz' 4 = (e, l, d, kts, zts)"
    by (cases "calculate_interpolation_tables ma (fst kl) (snd kl) nk' nz' 4") auto
  define tb where
    "tb = \<lparr>ed = e, le = l, ld = d, kt = kts, zt = zts, klims = kl, nk = nk', nz = nz'\<rparr>"
  define m where
    "m = \<lparr>base = tm_init tm 2 n True s ex, tabs = Some tb,
          p_eval_nolerp = Eval_nolerp_quadratic, p_eval_lerp = Some Eval_lerp_quadratic,
          p_eval = Eval_lerp_quadratic\<rparr>"
  have i: "init ma tm 2 n True s ex kl nk' nz' = (Inr m, [Call_calculate_interpolation_tables])"
    by (simp add: init_quadratic_lerp t m_def tb_def)
  have ev: "p_eval m = Eval_lerp_quadratic" and tm: "tabs m = Some tb" by (simp_all add: m_def)
  have c: "call ma m z k u c b upd =
             (Inr (if ndim u > 1
                   then eval_quad_bilerp ma z k (prepare_u u) c (nthr (base m)) e d l kts zts
                   else ravel (eval_quad_bilerp ma z k (prepare_u u) c (nthr (base m)) e d l kts zts)),
              m, [Call_eval_quad_bilerp])" for upd
    using call_lerp [OF ev tm, of ma z k u c b upd] by (simp add: tb_def)
  from i tm c have
    "\<exists>m. init ma tm 2 n True s ex kl nk' nz' = (Inr m, [Call_calculate_interpolation_tables])
          \<and> tabs m = Some \<lparr>ed = e, le = l, ld = d, kt = kts, zt = zts,
                            klims = kl, nk = nk', nz = nz'\<rparr>
          \<and> (\<forall>upd. call ma m z k u c b upd =
                (Inr (if ndim u > 1
                      then eval_quad_bilerp ma z k (prepare_u u) c (nthr (base m)) e d l kts zts
                      else ravel (eval_quad_bilerp ma z k (prepare_u u) c (nthr (base m)) e d l kts zts)),
                 m, [Call_eval_quad_bilerp]))"
    unfolding tb_def by blast
  then show ?thesis by (simp add: t)
qed

theorem update_flag_is_ignored_witness:
  "init (ma_spec flat_law) tm_spec 2 0 True 0 (2 / 100) (7 / 100, 13 / 100) 2 2
     = (Inr lerp_example, [Call_calculate_interpolation_tables])
   \<and> snd (snd (call (ma_spec flat_law) lerp_example (NDArray [2] [0, 2]) (1 / 10)
                  (NDArray [2] [3 / 10, 2 / 10]) 0 (1 / 10 ^ 8) True)) = [Call_eval_quad_bilerp]
   \<and> fst (snd (call (ma_spec flat_law) lerp_example (NDArray [2] [0, 2]) (1 / 10)
                  (NDArray [2] [3 / 10, 2 / 10]) 0 (1 / 10 ^ 8) True)) = lerp_example
   \<and> call (ma_spec flat_law) lerp_example (NDArray [2] [0, 2]) (1 / 10)
        (NDArray [2] [3 / 10, 2 / 10]) 0 (1 / 10 ^ 8) True
     = call (ma_spec flat_law) lerp_example (NDArray [2] [0, 2]) (1 / 10)
        (NDArray [2] [3 / 10, 2 / 10]) 0 (1 / 10 ^ 8) False"
proof -
  have i: "init (ma_spec flat_law) tm_spec 2 0 True 0 (2 / 100) (7 / 100, 13 / 100) 2 2
     = (Inr lerp_example, [Call_calculate_interpolation_tables])"
    by (simp add: init_def tm_spec_def spec_tm_init_def lerp_example_def ma_spec_def
          split: prod.splits)
  from update_flag_is_ignored [where ma = "ma_spec flat_law" and kl = "(7 / 100, 13 / 100)"
      and nk' = 2 and nz' = 2 and tm = tm_spec and n = 0 and s = 0 and ex = "2 / 100"
      and z = "NDArray [2] [0, 2]" and k = "1 / 10" and u = "NDArray [2] [3 / 10, 2 / 10]"
      and c = 0 and b = "1 / 10 ^ 8"] i
  show ?thesis by (auto split: prod.splits)
qed

section \<open>Flux without occultation\<close>




end
